theory Spec2Isabelle
  imports Main "HOL-Library.Sublist"
begin

section \<open>Data model\<close>

text \<open>
  The traffic manager's \<open>Main\<close> starts three goroutines: \<open>httpd\<close>, \<open>intercept-gc\<close>
  and \<open>systema-gc\<close>. Each is embedded below as a function of what it receives from its
  environment. The collaborators that \<open>manager.go\<close> only calls (the System A connection
  pool, \<open>reapDomain\<close>, \<open>reapIntercept\<close>, \<open>expire\<close>, the gRPC server) are parameters of
  the model: every theorem holds for each behaviour they may have.
\<close>

text \<open>The fields of an intercept that \<open>systema-gc\<close> reads: \<open>update.Value.Id\<close>,
  \<open>update.Value.ApiKey\<close> and \<open>update.Value.PreviewDomain\<close>.\<close>

record InterceptInfo =
  Id :: string
  ApiKey :: string
  PreviewDomain :: string

record Update =
  Delete :: bool
  Value :: InterceptInfo

record Snapshot =
  Updates :: "Update list"

text \<open>
  The two call sites of \<open>mgr.systema.Done()\<close>: the one inside the \<open>else\<close> branch
  releases the connection acquired by \<open>mgr.systema.Get()\<close>, the one after the
  \<open>if\<close>/\<open>else\<close> releases the reference count of the proxy connection.
\<close>

datatype done_site = ManagementConn | ProxyConn

text \<open>
  What \<open>systema-gc\<close> does that is visible outside it, in the order it does it. A call is
  recorded when it has returned, together with what it returned: a Go \<open>error\<close> is an
  \<open>'e option\<close> (\<open>None\<close> is \<open>nil\<close>), and \<open>(sa, err)\<close> of \<open>Get\<close> is \<open>'e + 'c\<close>.
\<close>

datatype ('c, 'e) event =
    CallGet "'e + 'c"
  | CallReapDomain 'c Update "'e option"
  | CallReapIntercept 'c Update "'e option"
  | CallDone done_site "'e option"
  | LogErrorln string 'e
  | LogDebugf string string

text \<open>
  The manager, as far as \<open>Main\<close> uses it. \<open>'w\<close> is the state of everything behind these
  calls (the connection pool with its reference count, System A, the state store); each
  call may change it.
\<close>

record ('c, 'e, 'w) Manager =
  systema_Get :: "'w \<Rightarrow> ('e + 'c) \<times> 'w"
  systema_Done :: "'w \<Rightarrow> 'e option \<times> 'w"
  reapDomain :: "'c \<Rightarrow> Update \<Rightarrow> 'w \<Rightarrow> 'e option \<times> 'w"
  reapIntercept :: "'c \<Rightarrow> Update \<Rightarrow> 'w \<Rightarrow> 'e option \<times> 'w"
  expire :: "'w \<Rightarrow> 'w"

section \<open>The goroutine \<open>systema-gc\<close>\<close>

text \<open>\<open>if err != nil { dlog.Errorln(ctx, msg, err) }\<close>\<close>

definition log_if_err :: "string \<Rightarrow> 'e option \<Rightarrow> ('c, 'e) event list" where
  "log_if_err msg err = (case err of None \<Rightarrow> [] | Some e \<Rightarrow> [LogErrorln msg e])"

text \<open>Lines 93 to 98: the preview domain is removed first, if there is one.\<close>

definition remove_domain ::
  "('c, 'e, 'w) Manager \<Rightarrow> 'c \<Rightarrow> Update \<Rightarrow> 'w \<Rightarrow> 'w \<times> ('c, 'e) event list" where
  "remove_domain mgr sa update w =
     (if PreviewDomain (Value update) \<noteq> '''' then
        (case reapDomain mgr sa update w of
           (err, w') \<Rightarrow>
             (w', CallReapDomain sa update err # log_if_err ''systema: remove domain:'' err))
      else (w, []))"

text \<open>Lines 100 to 104: System A is told of the intercept's removal.\<close>

definition remove_intercept ::
  "('c, 'e, 'w) Manager \<Rightarrow> 'c \<Rightarrow> Update \<Rightarrow> 'w \<Rightarrow> 'w \<times> ('c, 'e) event list" where
  "remove_intercept mgr sa update w =
     (case reapIntercept mgr sa update w of
        (err, w') \<Rightarrow>
          (w', LogDebugf ''systema: remove intercept: %q'' (Id (Value update))
               # CallReapIntercept sa update err
               # log_if_err ''systema: remove intercept:'' err))"

text \<open>Lines 107 to 109 and 112 to 114: \<open>mgr.systema.Done()\<close>, its error logged.\<close>

definition release ::
  "('c, 'e, 'w) Manager \<Rightarrow> done_site \<Rightarrow> 'w \<Rightarrow> 'w \<times> ('c, 'e) event list" where
  "release mgr site w =
     (case systema_Done mgr w of
        (err, w') \<Rightarrow>
          (w', CallDone site err
               # log_if_err (case site of
                     ManagementConn \<Rightarrow> ''systema: release management connection:''
                   | ProxyConn \<Rightarrow> ''systema: release proxy connection:'') err))"

text \<open>Lines 92 to 109: the \<open>else\<close> branch, with the connection \<open>sa\<close> in hand.\<close>

definition with_connection ::
  "('c, 'e, 'w) Manager \<Rightarrow> 'c \<Rightarrow> Update \<Rightarrow> 'w \<Rightarrow> 'w \<times> ('c, 'e) event list" where
  "with_connection mgr sa update w =
     (case remove_domain mgr sa update w of
        (w1, evs1) \<Rightarrow>
          (case remove_intercept mgr sa update w1 of
             (w2, evs2) \<Rightarrow>
               (case release mgr ManagementConn w2 of
                  (w3, evs3) \<Rightarrow> (w3, evs1 @ evs2 @ evs3))))"

text \<open>
  Lines 88 to 115: the body of the inner loop, for one update. It returns the new state
  behind the manager and the events of this update.
\<close>

definition process_update ::
  "('c, 'e, 'w) Manager \<Rightarrow> Update \<Rightarrow> 'w \<Rightarrow> 'w \<times> ('c, 'e) event list" where
  "process_update mgr update w =
     (if Delete update \<and> ApiKey (Value update) \<noteq> '''' then
        (case systema_Get mgr w of
           (r, w0) \<Rightarrow>
             (case (case r of
                      Inl err \<Rightarrow> (w0, [LogErrorln ''systema: acquire connection:'' err])
                    | Inr sa \<Rightarrow> with_connection mgr sa update w0) of
                (w1, evs1) \<Rightarrow>
                  (case release mgr ProxyConn w1 of
                     (w2, evs2) \<Rightarrow> (w2, CallGet r # evs1 @ evs2))))
      else (w, []))"

text \<open>Line 84: \<open>for _, update := range snapshot.Updates\<close>.\<close>

fun process_updates ::
  "('c, 'e, 'w) Manager \<Rightarrow> Update list \<Rightarrow> 'w \<Rightarrow> 'w \<times> ('c, 'e) event list" where
  "process_updates mgr [] w = (w, [])"
| "process_updates mgr (update # rest) w =
     (case process_update mgr update w of
        (w1, evs1) \<Rightarrow>
          (case process_updates mgr rest w1 of
             (w2, evs2) \<Rightarrow> (w2, evs1 @ evs2)))"

text \<open>
  What a receive on the channel of \<open>mgr.state.WatchIntercepts(ctx, nil)\<close> yields: a
  snapshot, or the news that the channel is closed.
\<close>

datatype 'a recv = Recv 'a | Closed

text \<open>
  Line 83 to 118: \<open>for snapshot := range ch { ... }; return nil\<close>. The list is what the
  channel delivers, in order. The loop ends at \<open>Closed\<close> and the goroutine returns
  \<open>nil\<close>, which is \<open>Some None\<close>; when the channel delivers nothing more and is not
  closed, the goroutine stays blocked in the receive and has not returned: \<open>None\<close>.
\<close>

fun systema_gc ::
  "('c, 'e, 'w) Manager \<Rightarrow> Snapshot recv list \<Rightarrow> 'w
     \<Rightarrow> 'e option option \<times> 'w \<times> ('c, 'e) event list" where
  "systema_gc mgr [] w = (None, w, [])"
| "systema_gc mgr (Closed # rest) w = (Some None, w, [])"
| "systema_gc mgr (Recv snapshot # rest) w =
     (case process_updates mgr (Updates snapshot) w of
        (w1, evs1) \<Rightarrow>
          (case systema_gc mgr rest w1 of
             (ret, w2, evs2) \<Rightarrow> (ret, w2, evs1 @ evs2)))"

subsection \<open>Reading a list of events\<close>

fun is_external_call :: "('c, 'e) event \<Rightarrow> bool" where
  "is_external_call (CallReapDomain sa u err) = True"
| "is_external_call (CallReapIntercept sa u err) = True"
| "is_external_call ev = False"

fun is_acquire :: "('c, 'e) event \<Rightarrow> bool" where
  "is_acquire (CallGet r) = True"
| "is_acquire ev = False"

fun is_reapIntercept :: "('c, 'e) event \<Rightarrow> bool" where
  "is_reapIntercept (CallReapIntercept sa u err) = True"
| "is_reapIntercept ev = False"

text \<open>The call sites of \<open>mgr.systema.Done()\<close> in a list of events, in order.\<close>

fun done_sites :: "('c, 'e) event list \<Rightarrow> done_site list" where
  "done_sites [] = []"
| "done_sites (CallDone site err # evs) = site # done_sites evs"
| "done_sites (ev # evs) = done_sites evs"

definition external_calls :: "('c, 'e) event list \<Rightarrow> ('c, 'e) event list" where
  "external_calls evs = filter is_external_call evs"

definition acquisitions :: "('c, 'e) event list \<Rightarrow> nat" where
  "acquisitions evs = length (filter is_acquire evs)"

definition releases :: "('c, 'e) event list \<Rightarrow> nat" where
  "releases evs = length (done_sites evs)"

text \<open>
  A qualifying update, in the words of the specification: a deletion of an intercept that
  has an API key. It is the condition of line 88.
\<close>

definition qualifies :: "Update \<Rightarrow> bool" where
  "qualifies update = (Delete update \<and> ApiKey (Value update) \<noteq> '''')"

text \<open>
  Processing one more update after what has been done so far: the state and the events
  so far, then the update. Folding it over a list of updates processes each of them, in
  the order of the list.
\<close>

definition then_update ::
  "('c, 'e, 'w) Manager \<Rightarrow> 'w \<times> ('c, 'e) event list \<Rightarrow> Update
     \<Rightarrow> 'w \<times> ('c, 'e) event list" where
  "then_update mgr acc update =
     (case process_update mgr update (fst acc) of (w', evs) \<Rightarrow> (w', snd acc @ evs))"

section \<open>The goroutine \<open>intercept-gc\<close>\<close>

text \<open>\<open>time.Second\<close>: a \<open>time.Duration\<close> counts nanoseconds.\<close>

definition Second :: int where
  "Second = 1000000000"

text \<open>
  Which case of the \<open>select\<close> of line 69 is taken: a tick has arrived on \<open>ticker.C\<close>,
  or \<open>ctx.Done()\<close> is closed. The list given to the loop is the sequence of these
  choices, as the runtime makes them.
\<close>

datatype select_case = TickerC | CtxDone

datatype gc_event = NewTicker int | CallExpire | TickerStop

text \<open>
  Lines 68 to 75: \<open>for { select { ... } }\<close>. On a tick \<open>mgr.expire()\<close> is called, as a
  statement; on \<open>ctx.Done()\<close> the goroutine returns \<open>nil\<close> (\<open>Some None\<close>). When no case
  is ready any more the goroutine stays blocked in the \<open>select\<close>: \<open>None\<close>.
\<close>

fun gc_loop ::
  "('c, 'e, 'w) Manager \<Rightarrow> select_case list \<Rightarrow> 'w \<Rightarrow> 'e option option \<times> 'w \<times> gc_event list"
  where
  "gc_loop mgr [] w = (None, w, [])"
| "gc_loop mgr (TickerC # rest) w =
     (case gc_loop mgr rest (expire mgr w) of
        (ret, w', evs) \<Rightarrow> (ret, w', CallExpire # evs))"
| "gc_loop mgr (CtxDone # rest) w = (Some None, w, [])"

text \<open>
  Lines 63 to 76: the ticker is made with a period of \<open>5 * time.Second\<close>, and the
  deferred \<open>ticker.Stop()\<close> runs when the function returns.
\<close>

definition intercept_gc ::
  "('c, 'e, 'w) Manager \<Rightarrow> select_case list \<Rightarrow> 'w \<Rightarrow> 'e option option \<times> 'w \<times> gc_event list"
  where
  "intercept_gc mgr choices w =
     (case gc_loop mgr choices w of
        (ret, w', evs) \<Rightarrow>
          (ret, w', NewTicker (5 * Second) # evs
                    @ (case ret of None \<Rightarrow> [] | Some err \<Rightarrow> [TickerStop])))"

section \<open>The goroutine \<open>httpd\<close>\<close>

text \<open>
  Of an \<open>http.Request\<close> the handlers read \<open>r.ProtoMajor\<close>, \<open>r.Header\<close> and
  \<open>r.URL.Path\<close>; the server in front of them reads \<open>r.Method\<close> and \<open>r.RequestURI\<close>.
  An \<open>http.Header\<close> is a \<open>map[string][]string\<close>.
\<close>

record Request =
  Method :: string
  RequestURI :: string
  ProtoMajor :: int
  Header :: "string \<rightharpoonup> string list"
  URL_Path :: string

text \<open>Of an \<open>http.ResponseWriter\<close>, the body of the response so far.\<close>

type_synonym ResponseWriter = string

text \<open>
  \<open>Write\<close> on the \<open>http.ResponseWriter\<close> that the server hands to a handler for the
  request \<open>r\<close>. The response to a \<open>HEAD\<close> request has no body: the servers of
  \<open>net/http\<close> and of \<open>x/net/http2\<close> take what a handler writes and drop it.
\<close>

definition ResponseWriter_Write :: "Request \<Rightarrow> ResponseWriter \<Rightarrow> string \<Rightarrow> ResponseWriter" where
  "ResponseWriter_Write r w data = (if Method r = ''HEAD'' then w else w @ data)"

text \<open>
  \<open>Header.Get\<close> of \<open>net/http\<close>: the first value stored under the key, and the empty
  string when there is none. Go looks the key up in its canonical form; the one key that
  \<open>Main\<close> asks for, \<open>Content-Type\<close>, is in that form already.
\<close>

definition Header_Get :: "(string \<rightharpoonup> string list) \<Rightarrow> string \<Rightarrow> string" where
  "Header_Get h key = (case h key of None \<Rightarrow> '''' | Some [] \<Rightarrow> '''' | Some (v # vs) \<Rightarrow> v)"

text \<open>\<open>strings.HasPrefix\<close>:
  \<open>len(s) >= len(prefix) && s[:len(prefix)] == prefix\<close>.\<close>

definition HasPrefix :: "string \<Rightarrow> string \<Rightarrow> bool" where
  "HasPrefix s pre = (length s \<ge> length pre \<and> take (length pre) s = pre)"

text \<open>Lines 42 to 44: \<open>fmt.Fprintf(w, "Hello World from: %s\n", r.URL.Path)\<close>.\<close>

definition httpHandler :: "ResponseWriter \<Rightarrow> Request \<Rightarrow> ResponseWriter" where
  "httpHandler w r =
     ResponseWriter_Write r w (''Hello World from: '' @ URL_Path r @ [CHR 0x0A])"

text \<open>
  Who has served a request, with what it made of the response: one of the two handlers
  of \<open>Main\<close>, or \<open>net/http\<close> itself, which answers \<open>OPTIONS *\<close> with an empty body.
  What \<open>grpcHandler.ServeHTTP\<close> does is a parameter.
\<close>

datatype 'g served = ServedGrpc 'g | ServedHttp ResponseWriter | ServedOptions ResponseWriter

text \<open>Lines 48 to 54: the handler given to \<open>h2c.NewHandler\<close>.\<close>

definition mux_handler ::
  "(ResponseWriter \<Rightarrow> Request \<Rightarrow> 'g) \<Rightarrow> ResponseWriter \<Rightarrow> Request \<Rightarrow> 'g served" where
  "mux_handler grpcServeHTTP w r =
     (if ProtoMajor r = 2 \<and> HasPrefix (Header_Get (Header r) ''Content-Type'') ''application/grpc''
      then ServedGrpc (grpcServeHTTP w r)
      else ServedHttp (httpHandler w r))"



section \<open>Inputs to run the model on\<close>

text \<open>
  \<open>counting_mgr\<close> keeps a reference count as its state: \<open>Get\<close> succeeds with connection
  \<open>0\<close> and counts up, \<open>Done\<close> counts down and fails at zero, \<open>reapDomain\<close> fails and
  \<open>reapIntercept\<close> succeeds. \<open>failing_mgr\<close> differs in \<open>Get\<close>, which fails.
\<close>

definition counting_mgr :: "(nat, string, nat) Manager" where
  "counting_mgr =
     \<lparr> systema_Get = (\<lambda>n. (Inr 0, Suc n)),
       systema_Done = (\<lambda>n. if n = 0 then (Some ''done without get'', 0) else (None, n - 1)),
       reapDomain = (\<lambda>sa u n. (Some ''remove domain failed'', n)),
       reapIntercept = (\<lambda>sa u n. (None, n)),
       expire = (\<lambda>n. n) \<rparr>"

definition failing_mgr :: "(nat, string, nat) Manager" where
  "failing_mgr = counting_mgr \<lparr> systema_Get := (\<lambda>n. (Inl ''no connection'', n)) \<rparr>"

definition deleted_i1 :: Update where
  "deleted_i1 =
     \<lparr> Delete = True,
       Value = \<lparr> Id = ''i1'', ApiKey = ''k1'', PreviewDomain = ''d1.example'' \<rparr> \<rparr>"

definition deleted_i2 :: Update where
  "deleted_i2 =
     \<lparr> Delete = True, Value = \<lparr> Id = ''i2'', ApiKey = '''', PreviewDomain = '''' \<rparr> \<rparr>"

definition deleted_i3 :: Update where
  "deleted_i3 =
     \<lparr> Delete = True, Value = \<lparr> Id = ''i3'', ApiKey = ''k3'', PreviewDomain = '''' \<rparr> \<rparr>"

text \<open>A manager whose \<open>expire\<close> counts its calls.\<close>

definition ticking_mgr :: "(nat, string, nat) Manager" where
  "ticking_mgr = counting_mgr \<lparr> expire := Suc \<rparr>"

text \<open>
  Requests: gRPC over HTTP/2, gRPC-Web over HTTP/2, two that are not gRPC, a \<open>HEAD\<close>
  request and \<open>OPTIONS *\<close> over HTTP/1.1. \<open>grpc_stub\<close> stands for a gRPC server.
\<close>

definition grpc_request :: Request where
  "grpc_request =
     \<lparr> Method = ''POST'',
       RequestURI = ''/telepresence.manager.Manager/ArriveAsClient'',
       ProtoMajor = 2,
       Header = [''Content-Type'' \<mapsto> [''application/grpc+proto'']],
       URL_Path = ''/telepresence.manager.Manager/ArriveAsClient'' \<rparr>"

definition grpc_web_request :: Request where
  "grpc_web_request =
     \<lparr> Method = ''POST'',
       RequestURI = ''/telepresence.manager.Manager/Depart'',
       ProtoMajor = 2,
       Header = [''Content-Type'' \<mapsto> [''application/grpc-web'']],
       URL_Path = ''/telepresence.manager.Manager/Depart'' \<rparr>"






section \<open>Properties of \<open>systema-gc\<close>\<close>

lemma done_sites_append: "done_sites (xs @ ys) = done_sites xs @ done_sites ys"
  by (induction xs rule: done_sites.induct) simp_all

lemma done_sites_log_if_err: "done_sites (log_if_err msg err) = []"
  by (cases err) (simp_all add: log_if_err_def)

lemma done_sites_remove_domain: "done_sites (snd (remove_domain mgr sa u w)) = []"
  by (simp add: remove_domain_def done_sites_log_if_err split: prod.splits)

lemma done_sites_remove_intercept: "done_sites (snd (remove_intercept mgr sa u w)) = []"
  by (simp add: remove_intercept_def done_sites_log_if_err split: prod.splits)

lemma done_sites_release: "done_sites (snd (release mgr site w)) = [site]"
  by (simp add: release_def done_sites_log_if_err split: prod.splits)

lemma done_sites_with_connection:
  "done_sites (snd (with_connection mgr sa u w)) = [ManagementConn]"
proof -
  obtain w1 evs1 where d: "remove_domain mgr sa u w = (w1, evs1)"
    by (cases "remove_domain mgr sa u w")
  obtain w2 evs2 where i: "remove_intercept mgr sa u w1 = (w2, evs2)"
    by (cases "remove_intercept mgr sa u w1")
  obtain w3 evs3 where r: "release mgr ManagementConn w2 = (w3, evs3)"
    by (cases "release mgr ManagementConn w2")
  have "done_sites evs1 = []"
    using done_sites_remove_domain [of mgr sa u w] d by simp
  moreover have "done_sites evs2 = []"
    using done_sites_remove_intercept [of mgr sa u w1] i by simp
  moreover have "done_sites evs3 = [ManagementConn]"
    using done_sites_release [of mgr ManagementConn w2] r by simp
  ultimately show ?thesis
    by (simp add: with_connection_def d i r done_sites_append)
qed

text \<open>The two ways through a qualifying update, after \<open>mgr.systema.Get()\<close>.\<close>

lemma process_update_get_fails:
  assumes "Delete u" "ApiKey (Value u) \<noteq> ''''" "systema_Get mgr w = (Inl err, w0)"
  shows "process_update mgr u w =
    (fst (release mgr ProxyConn w0),
     CallGet (Inl err) # LogErrorln ''systema: acquire connection:'' err
       # snd (release mgr ProxyConn w0))"
  using assms by (simp add: process_update_def split: prod.splits)

lemma process_update_get_succeeds:
  assumes "Delete u" "ApiKey (Value u) \<noteq> ''''" "systema_Get mgr w = (Inr sa, w0)"
  shows "process_update mgr u w =
    (fst (release mgr ProxyConn (fst (with_connection mgr sa u w0))),
     CallGet (Inr sa) # snd (with_connection mgr sa u w0)
       @ snd (release mgr ProxyConn (fst (with_connection mgr sa u w0))))"
  using assms by (simp add: process_update_def split: prod.splits)

lemma with_connection_events:
  "snd (with_connection mgr sa u w) =
     snd (remove_domain mgr sa u w)
     @ snd (remove_intercept mgr sa u (fst (remove_domain mgr sa u w)))
     @ snd (release mgr ManagementConn
              (fst (remove_intercept mgr sa u (fst (remove_domain mgr sa u w)))))"
  by (simp add: with_connection_def split: prod.splits)

lemma release_calls_Done:
  "release mgr site w =
     (snd (systema_Done mgr w),
      CallDone site (fst (systema_Done mgr w))
        # (case fst (systema_Done mgr w) of
             None \<Rightarrow> []
           | Some e \<Rightarrow>
               [LogErrorln (case site of
                    ManagementConn \<Rightarrow> ''systema: release management connection:''
                  | ProxyConn \<Rightarrow> ''systema: release proxy connection:'') e]))"
  by (simp add: release_def log_if_err_def split: prod.splits option.splits)

lemma no_CallDone_iff: "(\<forall>site e. CallDone site e \<notin> set evs) \<longleftrightarrow> done_sites evs = []"
  by (induction evs rule: done_sites.induct) auto

lemma fst_remove_domain:
  "fst (remove_domain mgr sa u w) =
     (if PreviewDomain (Value u) \<noteq> '''' then snd (reapDomain mgr sa u w) else w)"
  by (simp add: remove_domain_def split: prod.splits)

lemma fst_remove_intercept:
  "fst (remove_intercept mgr sa u w) = snd (reapIntercept mgr sa u w)"
  by (simp add: remove_intercept_def split: prod.splits)

lemma fst_with_connection:
  "fst (with_connection mgr sa u w) =
     fst (release mgr ManagementConn
            (fst (remove_intercept mgr sa u (fst (remove_domain mgr sa u w)))))"
  by (simp add: with_connection_def split: prod.splits)

lemma process_update_releases:
  assumes "Delete u" and "ApiKey (Value u) \<noteq> ''''"
    and "systema_Get mgr w = (Inr sa, w0)"
    and "w2 = snd (reapIntercept mgr sa u
                 (if PreviewDomain (Value u) \<noteq> '''' then snd (reapDomain mgr sa u w0) else w0))"
    and "systema_Done mgr w2 = (merr, w3)"
    and "systema_Done mgr w3 = (perr, w4)"
  shows "process_update mgr u w =
     (w4, (CallGet (Inr sa) # snd (remove_domain mgr sa u w0)
             @ snd (remove_intercept mgr sa u (fst (remove_domain mgr sa u w0))))
          @ CallDone ManagementConn merr
          # (case merr of None \<Rightarrow> []
             | Some e \<Rightarrow> [LogErrorln ''systema: release management connection:'' e])
          @ CallDone ProxyConn perr
          # (case perr of None \<Rightarrow> []
             | Some e \<Rightarrow> [LogErrorln ''systema: release proxy connection:'' e]))"
proof -
  have w2: "fst (remove_intercept mgr sa u (fst (remove_domain mgr sa u w0))) = w2"
    by (simp add: fst_remove_intercept fst_remove_domain assms(4))
  have m: "release mgr ManagementConn w2 =
             (w3, CallDone ManagementConn merr
                  # (case merr of None \<Rightarrow> []
                     | Some e \<Rightarrow> [LogErrorln ''systema: release management connection:'' e]))"
    by (simp add: release_calls_Done assms(5) split: option.splits)
  have p: "release mgr ProxyConn w3 =
             (w4, CallDone ProxyConn perr
                  # (case perr of None \<Rightarrow> []
                     | Some e \<Rightarrow> [LogErrorln ''systema: release proxy connection:'' e]))"
    by (simp add: release_calls_Done assms(6) split: option.splits)
  have wcf: "fst (with_connection mgr sa u w0) = w3"
    by (simp add: fst_with_connection w2 m)
  have wcs: "snd (with_connection mgr sa u w0) =
               snd (remove_domain mgr sa u w0)
               @ snd (remove_intercept mgr sa u (fst (remove_domain mgr sa u w0)))
               @ snd (release mgr ManagementConn w2)"
    by (simp add: with_connection_events w2)
  show ?thesis
    by (simp add: process_update_get_succeeds [OF assms(1-3)] wcf wcs m p)
qed

lemma no_CallDone_before_releases:
  "CallDone site e \<notin> set (CallGet r # snd (remove_domain mgr sa u w0)
       @ snd (remove_intercept mgr sa u w1))"
proof -
  have "done_sites (CallGet r # snd (remove_domain mgr sa u w0)
          @ snd (remove_intercept mgr sa u w1)) = []"
    by (simp add: done_sites_append done_sites_remove_domain done_sites_remove_intercept)
  then show ?thesis using no_CallDone_iff by blast
qed

text \<open>
  C4. An update with \<open>Delete = false\<close>, and an update with \<open>Delete = true\<close> and an empty
  \<open>ApiKey\<close>, is skipped by the pipeline: processing it makes no call at all (no
  \<open>reapDomain\<close>, no \<open>reapIntercept\<close>, no \<open>Get\<close>, no \<open>Done\<close>) and leaves the state
  behind the manager as it was.
\<close>

theorem non_qualifying_update_is_ignored:
  assumes "\<not> Delete update \<or> ApiKey (Value update) = ''''"
  shows "process_update mgr update w = (w, [])
         \<and> external_calls (snd (process_update mgr update w)) = []
         \<and> acquisitions (snd (process_update mgr update w)) = 0
         \<and> releases (snd (process_update mgr update w)) = 0"
  using assms by (auto simp: process_update_def external_calls_def acquisitions_def releases_def)

theorem non_qualifying_update_is_ignored_witness:
  "Delete deleted_i2 \<and> ApiKey (Value deleted_i2) = ''''
   \<and> process_update counting_mgr deleted_i2 (2::nat) = (2, [])
   \<and> external_calls (snd (process_update counting_mgr deleted_i2 (2::nat))) = []
   \<and> acquisitions (snd (process_update counting_mgr deleted_i2 (2::nat))) = 0
   \<and> releases (snd (process_update counting_mgr deleted_i2 (2::nat))) = 0"
proof -
  have d: "Delete deleted_i2" and k: "ApiKey (Value deleted_i2) = ''''"
    by (simp_all add: deleted_i2_def)
  from k have h: "\<not> Delete deleted_i2 \<or> ApiKey (Value deleted_i2) = ''''" ..
  show ?thesis
    using d k non_qualifying_update_is_ignored [OF h, of counting_mgr 2] by blast
qed

text \<open>
  The deletion of intercept \<open>i1\<close>, which has an API key and a preview domain, run from a
  reference count of 2: first with the manager whose \<open>Get\<close> fails, then with the one
  whose \<open>Get\<close> succeeds and whose \<open>reapDomain\<close> fails.
\<close>

lemma eval_failing_i1:
  "process_update failing_mgr deleted_i1 (2::nat) =
     (1, [CallGet (Inl ''no connection''),
          LogErrorln ''systema: acquire connection:'' ''no connection'',
          CallDone ProxyConn None])"
  by (simp add: process_update_def failing_mgr_def counting_mgr_def deleted_i1_def
      release_def log_if_err_def)

lemma eval_counting_i1:
  "process_update counting_mgr deleted_i1 (2::nat) =
     (1, [CallGet (Inr 0),
          CallReapDomain 0 deleted_i1 (Some ''remove domain failed''),
          LogErrorln ''systema: remove domain:'' ''remove domain failed'',
          LogDebugf ''systema: remove intercept: %q'' ''i1'',
          CallReapIntercept 0 deleted_i1 None,
          CallDone ManagementConn None,
          CallDone ProxyConn None])"
  by (simp add: process_update_def counting_mgr_def deleted_i1_def with_connection_def
      remove_domain_def remove_intercept_def release_def log_if_err_def)

text \<open>
  C1, as stated: when \<open>mgr.systema.Get()\<close> fails for a qualifying update, no external
  call is made and no \<open>mgr.systema.Done()\<close> is attempted. The second half fails: with a
  manager whose \<open>Get\<close> fails, the deletion of intercept \<open>i1\<close> still issues the release
  of the proxy connection.
\<close>

theorem acquire_failure_no_calls_no_releases_counterexample:
  "\<not> (Delete deleted_i1 \<and> ApiKey (Value deleted_i1) \<noteq> ''''
        \<and> fst (systema_Get failing_mgr (2::nat)) = Inl ''no connection''
      \<longrightarrow> external_calls (snd (process_update failing_mgr deleted_i1 (2::nat))) = []
          \<and> releases (snd (process_update failing_mgr deleted_i1 (2::nat))) = 0)"
proof -
  have "releases (snd (process_update failing_mgr deleted_i1 (2::nat))) = 1"
    by (simp add: eval_failing_i1 releases_def)
  moreover have "Delete deleted_i1 \<and> ApiKey (Value deleted_i1) \<noteq> ''''"
    by (simp add: deleted_i1_def)
  moreover have "fst (systema_Get failing_mgr (2::nat)) = Inl ''no connection''"
    by (simp add: failing_mgr_def counting_mgr_def)
  ultimately show ?thesis by simp
qed

text \<open>
  C1, amended: when \<open>mgr.systema.Get()\<close> fails for a qualifying update, the error is
  logged, no external call is made (neither \<open>reapDomain\<close> nor \<open>reapIntercept\<close>) and the
  management connection is not released; the one release is that of the proxy
  connection: \<open>mgr.systema.Done()\<close> is called once, in the state \<open>w0\<close> that \<open>Get\<close> left,
  its error \<open>perr\<close> is logged if there is one, and the state it returns is the state
  after the update.
\<close>

theorem acquire_failure_only_proxy_release:
  assumes "Delete update" and "ApiKey (Value update) \<noteq> ''''"
    and "systema_Get mgr w = (Inl err, w0)"
    and "systema_Done mgr w0 = (perr, w1)"
  shows "process_update mgr update w =
           (w1, [CallGet (Inl err),
                 LogErrorln ''systema: acquire connection:'' err,
                 CallDone ProxyConn perr]
                @ (case perr of None \<Rightarrow> []
                   | Some e \<Rightarrow> [LogErrorln ''systema: release proxy connection:'' e]))
         \<and> external_calls (snd (process_update mgr update w)) = []
         \<and> done_sites (snd (process_update mgr update w)) = [ProxyConn]
         \<and> releases (snd (process_update mgr update w)) = 1"
proof -
  have "process_update mgr update w =
           (w1, [CallGet (Inl err),
                 LogErrorln ''systema: acquire connection:'' err,
                 CallDone ProxyConn perr]
                @ (case perr of None \<Rightarrow> []
                   | Some e \<Rightarrow> [LogErrorln ''systema: release proxy connection:'' e]))"
    by (simp add: process_update_get_fails [OF assms(1-3)] release_calls_Done assms(4)
        split: option.splits)
  then show ?thesis
    by (cases perr) (simp_all add: external_calls_def releases_def)
qed

theorem acquire_failure_only_proxy_release_witness:
  "Delete deleted_i1 \<and> ApiKey (Value deleted_i1) \<noteq> ''''
   \<and> systema_Get failing_mgr (2::nat) = (Inl ''no connection'', 2)
   \<and> systema_Done failing_mgr (2::nat) = (None, 1)
   \<and> process_update failing_mgr deleted_i1 (2::nat) =
       (1, [CallGet (Inl ''no connection''),
            LogErrorln ''systema: acquire connection:'' ''no connection'',
            CallDone ProxyConn None])
   \<and> systema_Get failing_mgr (0::nat) = (Inl ''no connection'', 0)
   \<and> systema_Done failing_mgr (0::nat) = (Some ''done without get'', 0)
   \<and> process_update failing_mgr deleted_i1 (0::nat) =
       (0, [CallGet (Inl ''no connection''),
            LogErrorln ''systema: acquire connection:'' ''no connection'',
            CallDone ProxyConn (Some ''done without get''),
            LogErrorln ''systema: release proxy connection:'' ''done without get''])
   \<and> external_calls (snd (process_update failing_mgr deleted_i1 (2::nat))) = []
   \<and> releases (snd (process_update failing_mgr deleted_i1 (2::nat))) = 1"
proof -
  have h1: "Delete deleted_i1" by (simp add: deleted_i1_def)
  have h2: "ApiKey (Value deleted_i1) \<noteq> ''''" by (simp add: deleted_i1_def)
  have g2: "systema_Get failing_mgr (2::nat) = (Inl ''no connection'', 2)"
    by (simp add: failing_mgr_def counting_mgr_def)
  have d2: "systema_Done failing_mgr (2::nat) = (None, 1)"
    by (simp add: failing_mgr_def counting_mgr_def)
  have g0: "systema_Get failing_mgr (0::nat) = (Inl ''no connection'', 0)"
    by (simp add: failing_mgr_def counting_mgr_def)
  have d0: "systema_Done failing_mgr (0::nat) = (Some ''done without get'', 0)"
    by (simp add: failing_mgr_def counting_mgr_def)
  have a: "process_update failing_mgr deleted_i1 (2::nat) =
       (1, [CallGet (Inl ''no connection''),
            LogErrorln ''systema: acquire connection:'' ''no connection'',
            CallDone ProxyConn None])
     \<and> external_calls (snd (process_update failing_mgr deleted_i1 (2::nat))) = []
     \<and> releases (snd (process_update failing_mgr deleted_i1 (2::nat))) = 1"
    using acquire_failure_only_proxy_release [OF h1 h2 g2 d2]
    by (simp add: external_calls_def releases_def)
  have b: "process_update failing_mgr deleted_i1 (0::nat) =
       (0, [CallGet (Inl ''no connection''),
            LogErrorln ''systema: acquire connection:'' ''no connection'',
            CallDone ProxyConn (Some ''done without get''),
            LogErrorln ''systema: release proxy connection:'' ''done without get''])"
    using acquire_failure_only_proxy_release [OF h1 h2 g0 d0] by simp
  show ?thesis using h1 h2 g2 d2 g0 d0 a b by blast
qed

text \<open>
  C2. For a qualifying update the release of the proxy connection is always performed,
  and it is the last call of the update. When \<open>mgr.systema.Get()\<close> fails it is the only
  release: \<open>mgr.systema.Done()\<close> is called in the state \<open>w0\<close> that \<open>Get\<close> left. When
  \<open>Get\<close> succeeds, \<open>mgr.systema.Done()\<close> is called twice: for the management connection
  in the state \<open>w2\<close> that \<open>reapIntercept\<close> left, then for the proxy connection in the
  state \<open>w3\<close> that the first call returned; no release comes before these two. In both
  cases the state after the update is the one the proxy release returned, and each
  release that fails is logged.
\<close>

theorem proxy_release_is_unconditional:
  assumes "Delete update" and "ApiKey (Value update) \<noteq> ''''"
    and "systema_Get mgr w = (r, w0)"
  shows "case r of
           Inl err \<Rightarrow>
             (let perr = fst (systema_Done mgr w0); w1 = snd (systema_Done mgr w0)
              in process_update mgr update w =
                   (w1, [CallGet (Inl err),
                         LogErrorln ''systema: acquire connection:'' err,
                         CallDone ProxyConn perr]
                        @ (case perr of None \<Rightarrow> []
                           | Some e \<Rightarrow> [LogErrorln ''systema: release proxy connection:'' e])))
         | Inr sa \<Rightarrow>
             (let w2 = snd (reapIntercept mgr sa update
                         (if PreviewDomain (Value update) \<noteq> ''''
                          then snd (reapDomain mgr sa update w0) else w0));
                  merr = fst (systema_Done mgr w2); w3 = snd (systema_Done mgr w2);
                  perr = fst (systema_Done mgr w3); w4 = snd (systema_Done mgr w3)
              in fst (process_update mgr update w) = w4
                 \<and> (\<exists>pre. (\<forall>site e. CallDone site e \<notin> set pre)
                      \<and> snd (process_update mgr update w) =
                          pre @ CallDone ManagementConn merr
                          # (case merr of None \<Rightarrow> []
                             | Some e \<Rightarrow>
                                 [LogErrorln ''systema: release management connection:'' e])
                          @ CallDone ProxyConn perr
                          # (case perr of None \<Rightarrow> []
                             | Some e \<Rightarrow>
                                 [LogErrorln ''systema: release proxy connection:'' e])))"
proof (cases r)
  case (Inl err)
  have "process_update mgr update w =
          (snd (systema_Done mgr w0),
           [CallGet (Inl err), LogErrorln ''systema: acquire connection:'' err,
            CallDone ProxyConn (fst (systema_Done mgr w0))]
           @ (case fst (systema_Done mgr w0) of None \<Rightarrow> []
              | Some e \<Rightarrow> [LogErrorln ''systema: release proxy connection:'' e]))"
    using assms Inl
    by (simp add: process_update_get_fails release_calls_Done split: option.splits)
  then show ?thesis by (simp add: Inl Let_def)
next
  case (Inr sa)
  define w2 where "w2 = snd (reapIntercept mgr sa update
                         (if PreviewDomain (Value update) \<noteq> ''''
                          then snd (reapDomain mgr sa update w0) else w0))"
  let ?merr = "fst (systema_Done mgr w2)" and ?w3 = "snd (systema_Done mgr w2)"
  let ?perr = "fst (systema_Done mgr ?w3)" and ?w4 = "snd (systema_Done mgr ?w3)"
  let ?pre = "CallGet (Inr sa) # snd (remove_domain mgr sa update w0)
             @ snd (remove_intercept mgr sa update (fst (remove_domain mgr sa update w0)))"
  have g: "systema_Get mgr w = (Inr sa, w0)" using assms(3) Inr by simp
  have p: "process_update mgr update w =
     (?w4, ?pre
          @ CallDone ManagementConn ?merr
          # (case ?merr of None \<Rightarrow> []
             | Some e \<Rightarrow> [LogErrorln ''systema: release management connection:'' e])
          @ CallDone ProxyConn ?perr
          # (case ?perr of None \<Rightarrow> []
             | Some e \<Rightarrow> [LogErrorln ''systema: release proxy connection:'' e]))"
    by (rule process_update_releases [OF assms(1,2) g w2_def]) simp_all
  have n: "\<forall>site e. CallDone site e \<notin> set ?pre"
    by (intro allI) (rule no_CallDone_before_releases)
  have "fst (process_update mgr update w) = ?w4
        \<and> (\<exists>pre. (\<forall>site e. CallDone site e \<notin> set pre)
             \<and> snd (process_update mgr update w) =
                 pre @ CallDone ManagementConn ?merr
                 # (case ?merr of None \<Rightarrow> []
                    | Some e \<Rightarrow> [LogErrorln ''systema: release management connection:'' e])
                 @ CallDone ProxyConn ?perr
                 # (case ?perr of None \<Rightarrow> []
                    | Some e \<Rightarrow> [LogErrorln ''systema: release proxy connection:'' e]))"
    using p n by (metis fst_conv snd_conv)
  then show ?thesis by (simp add: Inr Let_def w2_def)
qed

theorem proxy_release_is_unconditional_witness:
  "Delete deleted_i1 \<and> ApiKey (Value deleted_i1) \<noteq> ''''
   \<and> systema_Get failing_mgr (2::nat) = (Inl ''no connection'', 2)
   \<and> process_update failing_mgr deleted_i1 (2::nat) =
       (1, [CallGet (Inl ''no connection''),
            LogErrorln ''systema: acquire connection:'' ''no connection'',
            CallDone ProxyConn None])
   \<and> systema_Get failing_mgr (0::nat) = (Inl ''no connection'', 0)
   \<and> process_update failing_mgr deleted_i1 (0::nat) =
       (0, [CallGet (Inl ''no connection''),
            LogErrorln ''systema: acquire connection:'' ''no connection'',
            CallDone ProxyConn (Some ''done without get''),
            LogErrorln ''systema: release proxy connection:'' ''done without get''])
   \<and> systema_Get counting_mgr (2::nat) = (Inr 0, 3)
   \<and> fst (process_update counting_mgr deleted_i1 (2::nat)) = 1
   \<and> (\<exists>pre. (\<forall>site e. CallDone site e \<notin> set pre)
        \<and> snd (process_update counting_mgr deleted_i1 (2::nat)) =
            pre @ [CallDone ManagementConn None, CallDone ProxyConn None])"
proof -
  have h1: "Delete deleted_i1" by (simp add: deleted_i1_def)
  have h2: "ApiKey (Value deleted_i1) \<noteq> ''''" by (simp add: deleted_i1_def)
  have g1: "systema_Get failing_mgr (2::nat) = (Inl ''no connection'', 2)"
    by (simp add: failing_mgr_def counting_mgr_def)
  have g0: "systema_Get failing_mgr (0::nat) = (Inl ''no connection'', 0)"
    by (simp add: failing_mgr_def counting_mgr_def)
  have c: "process_update failing_mgr deleted_i1 (0::nat) =
       (0, [CallGet (Inl ''no connection''),
            LogErrorln ''systema: acquire connection:'' ''no connection'',
            CallDone ProxyConn (Some ''done without get''),
            LogErrorln ''systema: release proxy connection:'' ''done without get''])"
    using proxy_release_is_unconditional [OF h1 h2 g0]
    by (simp add: failing_mgr_def counting_mgr_def Let_def)
  have g2: "systema_Get counting_mgr (2::nat) = (Inr 0, 3)"
    by (simp add: counting_mgr_def)
  have a: "process_update failing_mgr deleted_i1 (2::nat) =
       (1, [CallGet (Inl ''no connection''),
            LogErrorln ''systema: acquire connection:'' ''no connection'',
            CallDone ProxyConn None])"
    using proxy_release_is_unconditional [OF h1 h2 g1]
    by (simp add: failing_mgr_def counting_mgr_def)
  have b: "fst (process_update counting_mgr deleted_i1 (2::nat)) = 1
     \<and> (\<exists>pre. (\<forall>site e. CallDone site e \<notin> set pre)
        \<and> snd (process_update counting_mgr deleted_i1 (2::nat)) =
            pre @ [CallDone ManagementConn None, CallDone ProxyConn None])"
    using proxy_release_is_unconditional [OF h1 h2 g2]
    by (simp add: counting_mgr_def deleted_i1_def)
  show ?thesis using h1 h2 g1 g0 g2 a b c by blast
qed

lemma reapIntercept_log_if_err: "filter is_reapIntercept (log_if_err msg err) = []"
  by (cases err) (simp_all add: log_if_err_def)

lemma reapIntercept_release: "filter is_reapIntercept (snd (release mgr site w)) = []"
  by (simp add: release_def reapIntercept_log_if_err split: prod.splits)

lemma reapIntercept_remove_domain:
  "filter is_reapIntercept (snd (remove_domain mgr sa u w)) = []"
  by (simp add: remove_domain_def reapIntercept_log_if_err split: prod.splits)

lemma reapIntercept_remove_intercept:
  "filter is_reapIntercept (snd (remove_intercept mgr sa u w)) =
     [CallReapIntercept sa u (fst (reapIntercept mgr sa u w))]"
  by (simp add: remove_intercept_def reapIntercept_log_if_err split: prod.splits)

text \<open>
  C5, as stated: every qualifying update is followed by exactly two calls of
  \<open>mgr.systema.Done()\<close>. With a manager whose \<open>Get\<close> fails there is one, the release
  of the proxy connection.
\<close>

theorem two_releases_per_qualifying_update_counterexample:
  "\<not> (Delete deleted_i1 \<and> ApiKey (Value deleted_i1) \<noteq> ''''
      \<longrightarrow> releases (snd (process_update failing_mgr deleted_i1 (2::nat))) = 2)"
proof -
  have "releases (snd (process_update failing_mgr deleted_i1 (2::nat))) = 1"
    by (simp add: eval_failing_i1 releases_def)
  moreover have "Delete deleted_i1 \<and> ApiKey (Value deleted_i1) \<noteq> ''''"
    by (simp add: deleted_i1_def)
  ultimately show ?thesis by simp
qed

text \<open>
  C5, amended: for every qualifying update whose \<open>mgr.systema.Get()\<close> succeeds, exactly
  two calls of \<open>mgr.systema.Done()\<close> are issued, whatever \<open>reapDomain\<close> and
  \<open>reapIntercept\<close> return: the management release in the state \<open>w2\<close> that
  \<open>reapIntercept\<close> left, with result \<open>merr\<close>, and then the proxy release in the state
  \<open>w3\<close> that the first returned, with result \<open>perr\<close>; the state after the update is
  the one the second call returned.
\<close>

theorem two_releases_after_successful_acquire:
  assumes "Delete update" and "ApiKey (Value update) \<noteq> ''''"
    and "systema_Get mgr w = (Inr sa, w0)"
    and "w2 = snd (reapIntercept mgr sa update
                 (if PreviewDomain (Value update) \<noteq> ''''
                  then snd (reapDomain mgr sa update w0) else w0))"
    and "systema_Done mgr w2 = (merr, w3)"
    and "systema_Done mgr w3 = (perr, w4)"
  shows "fst (process_update mgr update w) = w4
         \<and> (\<exists>pre. (\<forall>site e. CallDone site e \<notin> set pre)
              \<and> snd (process_update mgr update w) =
                  pre @ CallDone ManagementConn merr
                  # (case merr of None \<Rightarrow> []
                     | Some e \<Rightarrow> [LogErrorln ''systema: release management connection:'' e])
                  @ CallDone ProxyConn perr
                  # (case perr of None \<Rightarrow> []
                     | Some e \<Rightarrow> [LogErrorln ''systema: release proxy connection:'' e]))
         \<and> releases (snd (process_update mgr update w)) = 2
         \<and> done_sites (snd (process_update mgr update w)) = [ManagementConn, ProxyConn]"
proof -
  let ?pre = "CallGet (Inr sa) # snd (remove_domain mgr sa update w0)
             @ snd (remove_intercept mgr sa update (fst (remove_domain mgr sa update w0)))"
  have p: "process_update mgr update w =
     (w4, ?pre
          @ CallDone ManagementConn merr
          # (case merr of None \<Rightarrow> []
             | Some e \<Rightarrow> [LogErrorln ''systema: release management connection:'' e])
          @ CallDone ProxyConn perr
          # (case perr of None \<Rightarrow> []
             | Some e \<Rightarrow> [LogErrorln ''systema: release proxy connection:'' e]))"
    by (rule process_update_releases [OF assms])
  have n: "\<forall>site e. CallDone site e \<notin> set ?pre"
    by (intro allI) (rule no_CallDone_before_releases)
  have d: "done_sites (snd (process_update mgr update w)) = [ManagementConn, ProxyConn]"
    by (simp add: process_update_get_succeeds [OF assms(1-3)] done_sites_append
        done_sites_with_connection done_sites_release)
  have "\<exists>pre. (\<forall>site e. CallDone site e \<notin> set pre)
              \<and> snd (process_update mgr update w) =
                  pre @ CallDone ManagementConn merr
                  # (case merr of None \<Rightarrow> []
                     | Some e \<Rightarrow> [LogErrorln ''systema: release management connection:'' e])
                  @ CallDone ProxyConn perr
                  # (case perr of None \<Rightarrow> []
                     | Some e \<Rightarrow> [LogErrorln ''systema: release proxy connection:'' e])"
    using p n by (metis snd_conv)
  then show ?thesis using p d by (simp add: releases_def)
qed

theorem two_releases_after_successful_acquire_witness:
  "Delete deleted_i1 \<and> ApiKey (Value deleted_i1) \<noteq> ''''
   \<and> systema_Get counting_mgr (0::nat) = (Inr 0, 1)
   \<and> reapDomain counting_mgr 0 deleted_i1 (1::nat) = (Some ''remove domain failed'', 1)
   \<and> systema_Done counting_mgr (1::nat) = (None, 0)
   \<and> systema_Done counting_mgr (0::nat) = (Some ''done without get'', 0)
   \<and> fst (process_update counting_mgr deleted_i1 (0::nat)) = 0
   \<and> (\<exists>pre. (\<forall>site e. CallDone site e \<notin> set pre)
        \<and> snd (process_update counting_mgr deleted_i1 (0::nat)) =
            pre @ [CallDone ManagementConn None,
                   CallDone ProxyConn (Some ''done without get''),
                   LogErrorln ''systema: release proxy connection:'' ''done without get''])
   \<and> releases (snd (process_update counting_mgr deleted_i1 (0::nat))) = 2"
proof -
  have h1: "Delete deleted_i1" by (simp add: deleted_i1_def)
  have h2: "ApiKey (Value deleted_i1) \<noteq> ''''" by (simp add: deleted_i1_def)
  have h3: "systema_Get counting_mgr (0::nat) = (Inr 0, 1)"
    by (simp add: counting_mgr_def)
  have h4: "reapDomain counting_mgr 0 deleted_i1 (1::nat) = (Some ''remove domain failed'', 1)"
    by (simp add: counting_mgr_def)
  have h5: "(1::nat) = snd (reapIntercept counting_mgr 0 deleted_i1
                 (if PreviewDomain (Value deleted_i1) \<noteq> ''''
                  then snd (reapDomain counting_mgr 0 deleted_i1 (1::nat)) else 1))"
    by (simp add: counting_mgr_def)
  have h6: "systema_Done counting_mgr (1::nat) = (None, 0)"
    by (simp add: counting_mgr_def)
  have h7: "systema_Done counting_mgr (0::nat) = (Some ''done without get'', 0)"
    by (simp add: counting_mgr_def)
  have r: "fst (process_update counting_mgr deleted_i1 (0::nat)) = 0
   \<and> (\<exists>pre. (\<forall>site e. CallDone site e \<notin> set pre)
        \<and> snd (process_update counting_mgr deleted_i1 (0::nat)) =
            pre @ [CallDone ManagementConn None,
                   CallDone ProxyConn (Some ''done without get''),
                   LogErrorln ''systema: release proxy connection:'' ''done without get''])
   \<and> releases (snd (process_update counting_mgr deleted_i1 (0::nat))) = 2"
    using two_releases_after_successful_acquire [OF h1 h2 h3 h5 h6 h7] by simp
  show ?thesis using h1 h2 h3 h4 h6 h7 r by blast
qed

text \<open>
  C6. For a qualifying update whose \<open>mgr.systema.Get()\<close> succeeds, \<open>reapIntercept\<close> is
  called exactly once, on the acquired connection and in the state that the removal of
  the domain has left, whether \<open>reapDomain\<close> has failed, succeeded or was not called
  for want of a preview domain.
\<close>

theorem intercept_removal_always_reported:
  assumes "Delete update" and "ApiKey (Value update) \<noteq> ''''"
    and "systema_Get mgr w = (Inr sa, w0)"
  shows "filter is_reapIntercept (snd (process_update mgr update w)) =
           [CallReapIntercept sa update
              (fst (reapIntercept mgr sa update (fst (remove_domain mgr sa update w0))))]"
  by (simp add: process_update_get_succeeds [OF assms] with_connection_events
      reapIntercept_remove_domain reapIntercept_remove_intercept reapIntercept_release)

theorem intercept_removal_always_reported_witness:
  "Delete deleted_i1 \<and> ApiKey (Value deleted_i1) \<noteq> ''''
   \<and> systema_Get counting_mgr (2::nat) = (Inr 0, 3)
   \<and> fst (reapDomain counting_mgr 0 deleted_i1 (3::nat)) = Some ''remove domain failed''
   \<and> filter is_reapIntercept (snd (process_update counting_mgr deleted_i1 (2::nat)))
       = [CallReapIntercept 0 deleted_i1 None]
   \<and> Delete deleted_i3 \<and> ApiKey (Value deleted_i3) \<noteq> ''''
   \<and> PreviewDomain (Value deleted_i3) = ''''
   \<and> filter is_reapIntercept (snd (process_update counting_mgr deleted_i3 (2::nat)))
       = [CallReapIntercept 0 deleted_i3 None]"
proof -
  have h1: "Delete deleted_i1" by (simp add: deleted_i1_def)
  have h2: "ApiKey (Value deleted_i1) \<noteq> ''''" by (simp add: deleted_i1_def)
  have k1: "Delete deleted_i3" by (simp add: deleted_i3_def)
  have k2: "ApiKey (Value deleted_i3) \<noteq> ''''" by (simp add: deleted_i3_def)
  have k3: "PreviewDomain (Value deleted_i3) = ''''" by (simp add: deleted_i3_def)
  have h3: "systema_Get counting_mgr (2::nat) = (Inr 0, 3)"
    by (simp add: counting_mgr_def)
  have h4: "fst (reapDomain counting_mgr 0 deleted_i1 (3::nat)) = Some ''remove domain failed''"
    by (simp add: counting_mgr_def)
  have r: "\<And>u n. fst (reapIntercept counting_mgr 0 u (n::nat)) = None"
    by (simp add: counting_mgr_def)
  show ?thesis
    using h1 h2 h3 h4 k1 k2 k3
      intercept_removal_always_reported [OF h1 h2 h3]
      intercept_removal_always_reported [OF k1 k2 h3]
    by (simp add: r)
qed

text \<open>
  C3. For a qualifying update with a preview domain whose \<open>mgr.systema.Get()\<close>
  succeeds, the events of the update begin with the acquire, the call of \<open>reapDomain\<close>
  with its result \<open>rd\<close>, and, if it failed, the line \<open>systema: remove domain:\<close> in the
  error log; only then \<open>reapIntercept\<close> is called, in the state \<open>w1\<close> that \<open>reapDomain\<close>
  returned. Neither call occurs again afterwards.
\<close>

theorem domain_removed_before_intercept:
  assumes "Delete update" and "ApiKey (Value update) \<noteq> ''''"
    and "PreviewDomain (Value update) \<noteq> ''''"
    and "systema_Get mgr w = (Inr sa, w0)"
    and "reapDomain mgr sa update w0 = (rd, w1)"
    and "reapIntercept mgr sa update w1 = (ri, w2)"
  shows "\<exists>post. snd (process_update mgr update w) =
             [CallGet (Inr sa), CallReapDomain sa update rd]
             @ (case rd of None \<Rightarrow> []
                | Some e \<Rightarrow> [LogErrorln ''systema: remove domain:'' e])
             @ [LogDebugf ''systema: remove intercept: %q'' (Id (Value update)),
                CallReapIntercept sa update ri]
             @ post
           \<and> (\<forall>c u e. CallReapDomain c u e \<notin> set post)
           \<and> (\<forall>c u e. CallReapIntercept c u e \<notin> set post)"
proof -
  obtain merr w3 where m: "systema_Done mgr w2 = (merr, w3)"
    by (cases "systema_Done mgr w2")
  obtain perr w4 where p: "systema_Done mgr w3 = (perr, w4)"
    by (cases "systema_Done mgr w3")
  let ?post = "(case ri of None \<Rightarrow> []
               | Some e \<Rightarrow> [LogErrorln ''systema: remove intercept:'' e])
              @ CallDone ManagementConn merr
              # (case merr of None \<Rightarrow> []
                 | Some e \<Rightarrow> [LogErrorln ''systema: release management connection:'' e])
              @ CallDone ProxyConn perr
              # (case perr of None \<Rightarrow> []
                 | Some e \<Rightarrow> [LogErrorln ''systema: release proxy connection:'' e])"
  have w2: "w2 = snd (reapIntercept mgr sa update
                 (if PreviewDomain (Value update) \<noteq> ''''
                  then snd (reapDomain mgr sa update w0) else w0))"
    using assms(3,5,6) by simp
  have d: "remove_domain mgr sa update w0 =
             (w1, CallReapDomain sa update rd
                  # (case rd of None \<Rightarrow> []
                     | Some e \<Rightarrow> [LogErrorln ''systema: remove domain:'' e]))"
    using assms(3,5) by (simp add: remove_domain_def log_if_err_def)
  have i: "remove_intercept mgr sa update w1 =
             (w2, LogDebugf ''systema: remove intercept: %q'' (Id (Value update))
                  # CallReapIntercept sa update ri
                  # (case ri of None \<Rightarrow> []
                     | Some e \<Rightarrow> [LogErrorln ''systema: remove intercept:'' e]))"
    using assms(6) by (simp add: remove_intercept_def log_if_err_def)
  have "snd (process_update mgr update w) =
          [CallGet (Inr sa), CallReapDomain sa update rd]
          @ (case rd of None \<Rightarrow> []
             | Some e \<Rightarrow> [LogErrorln ''systema: remove domain:'' e])
          @ [LogDebugf ''systema: remove intercept: %q'' (Id (Value update)),
             CallReapIntercept sa update ri]
          @ ?post"
    by (simp add: process_update_releases [OF assms(1,2,4) w2 m p] d i)
  moreover have "\<forall>c u e. CallReapDomain c u e \<notin> set ?post"
    by (simp split: option.splits)
  moreover have "\<forall>c u e. CallReapIntercept c u e \<notin> set ?post"
    by (simp split: option.splits)
  ultimately show ?thesis by blast
qed

theorem domain_removed_before_intercept_witness:
  "Delete deleted_i1 \<and> ApiKey (Value deleted_i1) \<noteq> ''''
   \<and> PreviewDomain (Value deleted_i1) \<noteq> ''''
   \<and> systema_Get counting_mgr (2::nat) = (Inr 0, 3)
   \<and> reapDomain counting_mgr 0 deleted_i1 (3::nat) = (Some ''remove domain failed'', 3)
   \<and> reapIntercept counting_mgr 0 deleted_i1 (3::nat) = (None, 3)
   \<and> (\<exists>post. snd (process_update counting_mgr deleted_i1 (2::nat)) =
         [CallGet (Inr 0),
          CallReapDomain 0 deleted_i1 (Some ''remove domain failed''),
          LogErrorln ''systema: remove domain:'' ''remove domain failed'',
          LogDebugf ''systema: remove intercept: %q'' ''i1'',
          CallReapIntercept 0 deleted_i1 None]
         @ post
       \<and> (\<forall>c u e. CallReapDomain c u e \<notin> set post)
       \<and> (\<forall>c u e. CallReapIntercept c u e \<notin> set post))"
proof -
  have h1: "Delete deleted_i1" by (simp add: deleted_i1_def)
  have h2: "ApiKey (Value deleted_i1) \<noteq> ''''" by (simp add: deleted_i1_def)
  have h3: "PreviewDomain (Value deleted_i1) \<noteq> ''''" by (simp add: deleted_i1_def)
  have h4: "systema_Get counting_mgr (2::nat) = (Inr 0, 3)"
    by (simp add: counting_mgr_def)
  have h5: "reapDomain counting_mgr 0 deleted_i1 (3::nat) = (Some ''remove domain failed'', 3)"
    by (simp add: counting_mgr_def)
  have h6: "reapIntercept counting_mgr 0 deleted_i1 (3::nat) = (None, 3)"
    by (simp add: counting_mgr_def)
  have i: "Id (Value deleted_i1) = ''i1''" by (simp add: deleted_i1_def)
  have r: "\<exists>post. snd (process_update counting_mgr deleted_i1 (2::nat)) =
         [CallGet (Inr 0),
          CallReapDomain 0 deleted_i1 (Some ''remove domain failed''),
          LogErrorln ''systema: remove domain:'' ''remove domain failed'',
          LogDebugf ''systema: remove intercept: %q'' ''i1'',
          CallReapIntercept 0 deleted_i1 None]
         @ post
       \<and> (\<forall>c u e. CallReapDomain c u e \<notin> set post)
       \<and> (\<forall>c u e. CallReapIntercept c u e \<notin> set post)"
    using domain_removed_before_intercept [OF h1 h2 h3 h4 h5 h6] by (simp add: i)
  show ?thesis using h1 h2 h3 h4 h5 h6 r by blast
qed

lemma acquire_log_if_err: "filter is_acquire (log_if_err msg err) = []"
  by (cases err) (simp_all add: log_if_err_def)

lemma acquire_release: "filter is_acquire (snd (release mgr site w)) = []"
  by (simp add: release_def acquire_log_if_err split: prod.splits)

lemma acquire_with_connection: "filter is_acquire (snd (with_connection mgr sa u w)) = []"
  by (simp add: with_connection_events remove_domain_def remove_intercept_def
      acquire_log_if_err acquire_release split: prod.splits)

lemma acquisitions_process_update:
  "acquisitions (snd (process_update mgr u w)) = (if qualifies u then 1 else 0)"
proof (cases "qualifies u")
  case False
  then show ?thesis by (auto simp: qualifies_def process_update_def acquisitions_def)
next
  case True
  obtain r w0 where g: "systema_Get mgr w = (r, w0)" by (cases "systema_Get mgr w")
  show ?thesis
  proof (cases r)
    case (Inl err)
    with g True show ?thesis
      by (simp add: qualifies_def process_update_get_fails acquisitions_def acquire_release)
  next
    case (Inr sa)
    with g True show ?thesis
      by (simp add: qualifies_def process_update_get_succeeds acquisitions_def
          acquire_release acquire_with_connection)
  qed
qed

lemma acquisitions_process_updates:
  "acquisitions (snd (process_updates mgr us w)) = length (filter qualifies us)"
proof (induction us arbitrary: w)
  case Nil
  then show ?case by (simp add: acquisitions_def)
next
  case (Cons u us)
  obtain w1 evs1 where p: "process_update mgr u w = (w1, evs1)"
    by (cases "process_update mgr u w")
  obtain w2 evs2 where q: "process_updates mgr us w1 = (w2, evs2)"
    by (cases "process_updates mgr us w1")
  have "acquisitions evs1 = (if qualifies u then 1 else 0)"
    using acquisitions_process_update [of mgr u w] p by simp
  moreover have "acquisitions evs2 = length (filter qualifies us)"
    using Cons.IH [of w1] q by simp
  ultimately show ?case
    by (simp add: p q acquisitions_def)
qed

lemma foldl_then_update:
  "foldl (then_update mgr) acc us =
     (fst (process_updates mgr us (fst acc)), snd acc @ snd (process_updates mgr us (fst acc)))"
proof (induction us arbitrary: acc)
  case Nil
  then show ?case by simp
next
  case (Cons u us)
  have "foldl (then_update mgr) acc (u # us) =
          foldl (then_update mgr) (then_update mgr acc u) us"
    by simp
  also have "\<dots> =
      (fst (process_updates mgr us (fst (then_update mgr acc u))),
       snd (then_update mgr acc u)
         @ snd (process_updates mgr us (fst (then_update mgr acc u))))"
    by (rule Cons.IH)
  also have "\<dots> =
      (fst (process_updates mgr (u # us) (fst acc)),
       snd acc @ snd (process_updates mgr (u # us) (fst acc)))"
    by (simp add: then_update_def split: prod.splits)
  finally show ?case .
qed

lemma process_updates_append:
  "process_updates mgr (us @ vs) w =
     (fst (process_updates mgr vs (fst (process_updates mgr us w))),
      snd (process_updates mgr us w)
        @ snd (process_updates mgr vs (fst (process_updates mgr us w))))"
  by (induction us arbitrary: w) (simp_all split: prod.splits)

lemma systema_gc_until_closed:
  "systema_gc mgr (map Recv snapshots @ Closed # rest) w =
     (Some None, process_updates mgr (concat (map Updates snapshots)) w)"
proof (induction snapshots arbitrary: w)
  case Nil
  then show ?case by simp
next
  case (Cons s ss)
  show ?case
    by (simp add: Cons.IH process_updates_append split: prod.splits)
qed

lemma systema_gc_never_fails: "fst (systema_gc mgr chan w) \<noteq> Some (Some e)"
proof (induction chan arbitrary: w)
  case Nil
  show ?case by simp
next
  case (Cons r chan)
  show ?case
  proof (cases r)
    case (Recv s)
    obtain w1 evs1 where p: "process_updates mgr (Updates s) w = (w1, evs1)"
      by (cases "process_updates mgr (Updates s) w")
    obtain ret w2 evs2 where q: "systema_gc mgr chan w1 = (ret, w2, evs2)"
      by (cases "systema_gc mgr chan w1")
    from Cons.IH [of w1] q have "ret \<noteq> Some (Some e)" by simp
    then show ?thesis by (simp add: Recv p q)
  next
    case Closed
    then show ?thesis by simp
  qed
qed

text \<open>
  C10. When the channel delivers the snapshots and is then closed, the pipeline returns
  \<open>nil\<close>, having processed every update of every snapshot in the order of delivery: its
  state and its events are those of processing the updates one after the other, and
  \<open>mgr.systema.Get()\<close> has been called once for each qualifying update, whatever the
  manager's calls return. On no input does the pipeline return an error.
\<close>

theorem pipeline_processes_every_update:
  "systema_gc mgr (map Recv snapshots @ Closed # rest) w =
     (Some None, foldl (then_update mgr) (w, []) (concat (map Updates snapshots)))
   \<and> acquisitions (snd (snd (systema_gc mgr (map Recv snapshots @ Closed # rest) w)))
       = length (filter qualifies (concat (map Updates snapshots)))
   \<and> (\<forall>e. fst (systema_gc mgr chan w) \<noteq> Some (Some e))"
  by (simp add: systema_gc_until_closed foldl_then_update acquisitions_process_updates
      systema_gc_never_fails)


theorem pipeline_processes_every_update_witness:
  "systema_gc failing_mgr
     (map Recv [\<lparr>Updates = [deleted_i1, deleted_i2]\<rparr>, \<lparr>Updates = [deleted_i3]\<rparr>]
        @ Closed # []) (0::nat) =
     (Some None,
      foldl (then_update failing_mgr) (0, []) [deleted_i1, deleted_i2, deleted_i3])
   \<and> acquisitions (snd (snd (systema_gc failing_mgr
         (map Recv [\<lparr>Updates = [deleted_i1, deleted_i2]\<rparr>, \<lparr>Updates = [deleted_i3]\<rparr>]
            @ Closed # []) (0::nat)))) = 2"
proof -
  let ?snaps = "[\<lparr>Updates = [deleted_i1, deleted_i2]\<rparr>, \<lparr>Updates = [deleted_i3]\<rparr>]"
  have c: "concat (map Updates ?snaps) = [deleted_i1, deleted_i2, deleted_i3]"
    by simp
  have q: "length (filter qualifies [deleted_i1, deleted_i2, deleted_i3]) = 2"
    by (simp add: qualifies_def deleted_i1_def deleted_i2_def deleted_i3_def)
  have "systema_gc failing_mgr (map Recv ?snaps @ Closed # []) (0::nat) =
          (Some None,
           foldl (then_update failing_mgr) (0, []) (concat (map Updates ?snaps)))
        \<and> acquisitions (snd (snd (systema_gc failing_mgr
              (map Recv ?snaps @ Closed # []) (0::nat))))
            = length (filter qualifies (concat (map Updates ?snaps)))"
    using pipeline_processes_every_update [of failing_mgr ?snaps "[]" 0 "[]"] by blast
  then show ?thesis unfolding c q .
qed

section \<open>Properties of \<open>httpd\<close>\<close>





text \<open>
  C8. The test on the \<open>Content-Type\<close> is a prefix match: a request with \<open>ProtoMajor\<close> 2
  whose \<open>Content-Type\<close> is \<open>application/grpc\<close> followed by anything, such as
  \<open>application/grpc+proto\<close> or \<open>application/grpc-web\<close>, is served by the gRPC handler.
\<close>

theorem grpc_content_type_prefix_match:
  assumes "ProtoMajor r = 2"
    and "Header_Get (Header r) ''Content-Type'' = ''application/grpc'' @ rest"
  shows "mux_handler grpcServeHTTP w r = ServedGrpc (grpcServeHTTP w r)"
  using assms by (simp add: mux_handler_def HasPrefix_def)

theorem grpc_content_type_prefix_match_witness:
  "ProtoMajor grpc_request = 2
   \<and> Header_Get (Header grpc_request) ''Content-Type'' = ''application/grpc'' @ ''+proto''
   \<and> mux_handler (\<lambda>w r. ()) [] grpc_request = ServedGrpc ()
   \<and> ProtoMajor grpc_web_request = 2
   \<and> Header_Get (Header grpc_web_request) ''Content-Type'' = ''application/grpc'' @ ''-web''
   \<and> mux_handler (\<lambda>w r. ()) [] grpc_web_request = ServedGrpc ()"
proof -
  have p1: "ProtoMajor grpc_request = 2" by (simp add: grpc_request_def)
  have c1: "Header_Get (Header grpc_request) ''Content-Type'' = ''application/grpc'' @ ''+proto''"
    by (simp add: grpc_request_def Header_Get_def)
  have p2: "ProtoMajor grpc_web_request = 2" by (simp add: grpc_web_request_def)
  have c2: "Header_Get (Header grpc_web_request) ''Content-Type'' = ''application/grpc'' @ ''-web''"
    by (simp add: grpc_web_request_def Header_Get_def)
  show ?thesis
    using p1 c1 p2 c2
      grpc_content_type_prefix_match [OF p1 c1, of "\<lambda>w r. ()" "[]"]
      grpc_content_type_prefix_match [OF p2 c2, of "\<lambda>w r. ()" "[]"]
    by blast
qed

section \<open>Properties of \<open>intercept-gc\<close>\<close>

lemma gc_loop_ticks:
  "gc_loop mgr (replicate n TickerC @ choices) w =
     (fst (gc_loop mgr choices ((expire mgr ^^ n) w)),
      fst (snd (gc_loop mgr choices ((expire mgr ^^ n) w))),
      replicate n CallExpire @ snd (snd (gc_loop mgr choices ((expire mgr ^^ n) w))))"
proof (induction n arbitrary: w)
  case 0
  show ?case by simp
next
  case (Suc n)
  show ?case
    by (simp add: Suc.IH funpow_swap1 split: prod.splits)
qed

text \<open>
  C9. The driver makes its ticker with a period of 5 seconds and calls \<open>mgr.expire()\<close>
  once for each tick it receives, taking nothing from the call but the state it leaves.
  When the context is cancelled after \<open>n\<close> ticks the driver returns \<open>nil\<close> and stops
  its ticker, and ticks that come later are not served; as long as the context is not
  cancelled the driver does not return and the ticker runs.
\<close>

theorem expiration_driver:
  "intercept_gc mgr (replicate n TickerC @ CtxDone # rest) w =
     (Some None, (expire mgr ^^ n) w,
      NewTicker 5000000000 # replicate n CallExpire @ [TickerStop])
   \<and> intercept_gc mgr (replicate n TickerC) w =
     (None, (expire mgr ^^ n) w, NewTicker 5000000000 # replicate n CallExpire)"
proof -
  have "gc_loop mgr (replicate n TickerC @ CtxDone # rest) w =
          (Some None, (expire mgr ^^ n) w, replicate n CallExpire)"
    by (simp add: gc_loop_ticks)
  moreover have "gc_loop mgr (replicate n TickerC) w =
          (None, (expire mgr ^^ n) w, replicate n CallExpire)"
    using gc_loop_ticks [of mgr n "[]" w] by simp
  ultimately show ?thesis
    by (simp add: intercept_gc_def Second_def)
qed

theorem expiration_driver_witness:
  "intercept_gc ticking_mgr (replicate 2 TickerC @ CtxDone # [TickerC]) (0::nat) =
     (Some None, 2, [NewTicker 5000000000, CallExpire, CallExpire, TickerStop])
   \<and> intercept_gc ticking_mgr (replicate 2 TickerC) (0::nat) =
     (None, 2, [NewTicker 5000000000, CallExpire, CallExpire])"
  using expiration_driver [of ticking_mgr 2 "[TickerC]" 0]
  by (simp add: ticking_mgr_def numeral_2_eq_2)

end
